theory Spec2Isabelle
  imports Complex_Main
begin

section \<open>Data model\<close>

text \<open>
  A DataFrame is a list of column names and a list of rows; a cell is \<open>None\<close> where
  pandas' \<open>isnull()\<close> reports a missing value (NaN, None) and \<open>Some v\<close> otherwise.
  The row index labels are not modelled: no function of the two source files reads them.
\<close>

record 'v frame =
  columns :: "string list"
  rows :: "'v option list list"

text \<open>
  Every exception of the two files is a value. \<open>ValueError\<close> carries the message of
  the source's \<open>raise\<close>; \<open>AttributeError\<close> carries the name of the attribute that was
  not found; \<open>LibraryError\<close> is any other exception raised inside a library call, with
  the name of its class.
\<close>

datatype error =
    ValueError string
  | AttributeError string
  | KeyError string
  | IndexError string
  | UnboundLocalError string
  | LibraryError string

text \<open>\<open>df.shape\<close>, and \<open>df.empty\<close>: true when either axis has length 0.\<close>

definition shape :: "'v frame \<Rightarrow> nat \<times> nat" where
  "shape df = (length (rows df), length (columns df))"

definition frame_empty :: "'v frame \<Rightarrow> bool" where
  "frame_empty df = (rows df = [] \<or> columns df = [])"

section \<open>Strings\<close>

text \<open>
  \<open>s.split(sep)\<close> for a one-character separator: the pieces between the separators,
  never an empty list (\<open>''''.split('/')\<close> is \<open>['''']\<close>).
\<close>

fun str_split :: "char \<Rightarrow> string \<Rightarrow> string list" where
  "str_split sep [] = [[]]"
| "str_split sep (c # cs) =
     (if c = sep then [] # str_split sep cs
      else (case str_split sep cs of
              [] \<Rightarrow> [[c]]
            | w # ws \<Rightarrow> (c # w) # ws))"

text \<open>\<open>s.lower()\<close> on the ASCII letters; the other bytes are left as they are.\<close>

definition lower_char :: "char \<Rightarrow> char" where
  "lower_char c =
     (let n = (of_char c :: nat)
      in if 65 \<le> n \<and> n \<le> 90 then char_of (n + 32) else c)"

definition str_lower :: "string \<Rightarrow> string" where
  "str_lower s = map lower_char s"

section \<open>The loader (data\_loader.py)\<close>

text \<open>
  The library calls of \<open>load_data\<close> and \<open>try_infer_format\<close> are the fields of one
  record, so that the functions below are the source's own control flow:
  \<^item> \<open>guess_type p\<close> is the first component of \<open>mimetypes.guess_type(p)\<close>;
  \<^item> \<open>filetype_guess p\<close> is \<open>filetype.guess(p)\<close>, reduced to the \<open>extension\<close> of the
    kind it finds (the source reads nothing else of it); it opens the file, so it
    may raise;
  \<^item> \<open>read_csv\<close>, \<open>read_excel\<close>, \<open>read_json\<close> are the three pandas readers;
  \<^item> \<open>errors_EmptydfError\<close> is the class \<open>pd.errors.EmptydfError\<close> that the \<open>except\<close>
    clause of \<open>load_data\<close> names: \<open>None\<close> when \<open>pandas.errors\<close> has no such attribute
    (matching an exception against the clause then raises AttributeError), otherwise
    the test whether an exception is an instance of the class.
\<close>

record 'v files =
  guess_type :: "string \<Rightarrow> string option"
  filetype_guess :: "string \<Rightarrow> error + string option"
  read_csv :: "string \<Rightarrow> error + 'v frame"
  read_excel :: "string \<Rightarrow> error + 'v frame"
  read_json :: "string \<Rightarrow> error + 'v frame"
  errors_EmptydfError :: "(error \<Rightarrow> bool) option"

text \<open>
  Tier 3 of \<open>try_infer_format\<close>: \<open>file_path.split('.')[-1].lower()\<close>. The list of
  pieces is never empty, so \<open>[-1]\<close> is its last element.
\<close>

definition extension_fallback :: "string \<Rightarrow> string" where
  "extension_fallback file_path = str_lower (last (str_split (CHR ''.'') file_path))"

text \<open>
  \<open>try_infer_format\<close>. \<open>if mime_type:\<close> is false for \<open>None\<close> and for the empty
  string; \<open>mime_type.split('/')[1]\<close> raises IndexError when there is no second piece.
  \<open>if kind:\<close> is false for \<open>None\<close> only.
\<close>

definition try_infer_format :: "'v files \<Rightarrow> string \<Rightarrow> error + string" where
  "try_infer_format env file_path =
     (case guess_type env file_path of
        Some (m # ms) \<Rightarrow>
          (case str_split (CHR ''/'') (m # ms) of
             _ # file_format # _ \<Rightarrow> Inr file_format
           | _ \<Rightarrow> Inl (IndexError ''list index out of range''))
      | _ \<Rightarrow>
          (case filetype_guess env file_path of
             Inl e \<Rightarrow> Inl e
           | Inr (Some extension) \<Rightarrow> Inr extension
           | Inr None \<Rightarrow> Inr (extension_fallback file_path)))"

text \<open>
  The three failures of \<open>load_data\<close> are ValueErrors told apart by their message; the
  specification calls the first \<open>UnsupportedFormat\<close> and the other two \<open>EmptyFile\<close>.
\<close>

definition quoted :: "string \<Rightarrow> string" where
  "quoted s = CHR 0x27 # s @ [CHR 0x27]"

definition UnsupportedFormat :: "string \<Rightarrow> error" where
  "UnsupportedFormat file_format =
     ValueError (''Unsupported file format: '' @ file_format
       @ ''. Please use CSV, Excel, JSON, or provide the format manually.'')"

definition EmptyFile_parser :: "string \<Rightarrow> error" where
  "EmptyFile_parser file_path = ValueError (''File '' @ quoted file_path @ '' is empty.'')"

definition EmptyFile :: "string \<Rightarrow> error" where
  "EmptyFile file_path = ValueError (''File '' @ quoted file_path @ '' contains no data.'')"

text \<open>
  \<open>load_data\<close>. An exception of the reader is matched against the \<open>except\<close> clause:
  an instance of the class named there becomes the "is empty" ValueError, any other
  exception propagates.
\<close>

definition load_data :: "'v files \<Rightarrow> string \<Rightarrow> error + 'v frame" where
  "load_data env file_path =
     (case try_infer_format env file_path of
        Inl e \<Rightarrow> Inl e
      | Inr file_format \<Rightarrow>
          if file_format \<in> set [''csv'', ''xlsx'', ''json''] then
            (case (if file_format = ''csv'' then read_csv env file_path
                   else if file_format = ''xlsx'' then read_excel env file_path
                   else if file_format = ''json'' then read_json env file_path
                   else Inl (UnboundLocalError ''df'')) of
               Inl e \<Rightarrow>
                 (case errors_EmptydfError env of
                    None \<Rightarrow> Inl (AttributeError ''EmptydfError'')
                  | Some is_instance \<Rightarrow>
                      if is_instance e then Inl (EmptyFile_parser file_path) else Inl e)
             | Inr df \<Rightarrow> if frame_empty df then Inl (EmptyFile file_path) else Inr df)
          else Inl (UnsupportedFormat file_format))"

section \<open>The cleaner (cleaner.py)\<close>

text \<open>
  The options are a Python dict: a lookup of an absent key raises KeyError. A value is a
  string (the method) or a float (the threshold, written as the real it denotes).
\<close>

datatype pyval = PStr string | PFloat real

type_synonym options = "string \<rightharpoonup> pyval"

text \<open>
  What \<open>print\<close> writes: one list of items for each call. A frame, a Series of counts
  and a number are kept as values rather than rendered.
\<close>

datatype 'v out =
    Text string
  | Show_frame "'v frame"
  | Show_counts "nat list"
  | Show_int int
  | Show_val pyval

type_synonym 'v printed = "'v out list list"

text \<open>
  The pandas calls whose result the source does not fix:
  \<^item> \<open>Series_zscore\<close> is the attribute \<open>pd.Series.zscore\<close> as \<open>DataFrame.apply\<close> uses it:
    \<open>None\<close> when the pandas namespace has no such attribute (reading it then raises
    AttributeError), otherwise the function from a frame to its rows of z-scores,
    which may raise (a text column); a z-score is \<open>None\<close> where it is NaN;
  \<^item> \<open>fillna\<close> is \<open>df.fillna(...)\<close>, called with the literal Ellipsis.
\<close>

record 'v pandas =
  Series_zscore :: "('v frame \<Rightarrow> error + real option list list) option"
  fillna :: "'v frame \<Rightarrow> error + 'v frame"

text \<open>
  A frame is rectangular when every row has one cell for each column; pandas builds no
  other frame.
\<close>

definition rectangular :: "'v frame \<Rightarrow> bool" where
  "rectangular df = list_all (\<lambda>r. length r = length (columns df)) (rows df)"

text \<open>\<open>df.isnull().sum()\<close>: the number of missing cells of each column.\<close>

definition isnull_sum :: "'v frame \<Rightarrow> nat list" where
  "isnull_sum df =
     map (\<lambda>j. length (filter (\<lambda>r. r ! j = None) (rows df))) [0..<length (columns df)]"

text \<open>\<open>.any()\<close> on a Series of counts: some count is not zero.\<close>

definition series_any :: "nat list \<Rightarrow> bool" where
  "series_any counts = list_ex (\<lambda>n. n \<noteq> 0) counts"

text \<open>A row has a missing value when one of its cells is \<open>None\<close>.\<close>

definition has_missing :: "'v option list \<Rightarrow> bool" where
  "has_missing r = list_ex (\<lambda>c. c = None) r"

text \<open>\<open>df.dropna()\<close>: a new frame with the rows that have no missing value, in order.\<close>

definition dropna :: "'v frame \<Rightarrow> 'v frame" where
  "dropna df = df\<lparr>rows := filter (\<lambda>r. \<not> has_missing r) (rows df)\<rparr>"

text \<open>
  \<open>df.duplicated()\<close> marks a row that equals an earlier row; \<open>.sum()\<close> counts the marks.
\<close>

fun duplicated :: "'a list \<Rightarrow> 'a list \<Rightarrow> bool list" where
  "duplicated seen [] = []"
| "duplicated seen (r # rs) = (r \<in> set seen) # duplicated (r # seen) rs"

definition duplicated_sum :: "'v frame \<Rightarrow> nat" where
  "duplicated_sum df = length (filter (\<lambda>b. b) (duplicated [] (rows df)))"

definition InvalidCleaningMethod :: error where
  "InvalidCleaningMethod = ValueError ''Invalid method for handling missing values.''"

text \<open>
  Lines 31 to 42 of \<open>clean_data\<close>, "Handle missing values based on options": what they
  print, and \<open>cleaned_df\<close> or the exception. \<open>options["method"]\<close> is read only under
  \<open>if missing_counts.any()\<close>.
\<close>

definition handle_missing ::
  "'v pandas \<Rightarrow> 'v frame \<Rightarrow> options \<Rightarrow> nat list \<Rightarrow> 'v printed \<times> (error + 'v frame)" where
  "handle_missing pd df options missing_counts =
     (if series_any missing_counts then
        (case options ''method'' of
           None \<Rightarrow> ([], Inl (KeyError ''method''))
         | Some method \<Rightarrow>
             if method = PStr ''dropna'' then
               (let cleaned_df = dropna df
                in ([[Text (CHR 10 # ''Dropped rows with missing values:''),
                      Show_int (int (fst (shape df)) - int (fst (shape cleaned_df)))]],
                    Inr cleaned_df))
             else if method = PStr ''fillna'' then
               (case fillna pd df of
                  Inl e \<Rightarrow> ([], Inl e)
                | Inr cleaned_df \<Rightarrow>
                    ([[Text (CHR 10 # ''Filled missing values using specified strategy'')]],
                     Inr cleaned_df))
             else ([], Inl InvalidCleaningMethod))
      else ([], Inr df))"

text \<open>
  Lines 44 to 54, "Check for duplicate rows": the count is printed and nothing is
  removed (the call of \<open>drop_duplicates\<close> is a comment).
\<close>

definition check_duplicates :: "'v frame \<Rightarrow> 'v printed" where
  "check_duplicates cleaned_df =
     (let duplicate_count = duplicated_sum cleaned_df
      in [[Text (CHR 10 # ''Number of duplicate rows:''), Show_int (int duplicate_count)],
          [Text (if duplicate_count > 0
                 then CHR 10 # ''Duplicate rows not handled in this example.''
                 else CHR 10 # ''No duplicate rows found.'')]])"

text \<open>
  \<open>abs_z_scores[abs_z_scores > threshold].any(axis=1)\<close>: a row is marked when one of its
  z-scores is not NaN, exceeds the threshold in absolute value and is not zero.
\<close>

definition outlier_row :: "real \<Rightarrow> real option list \<Rightarrow> bool" where
  "outlier_row threshold zs =
     list_ex (\<lambda>z. case z of None \<Rightarrow> False | Some x \<Rightarrow> threshold < \<bar>x\<bar> \<and> \<bar>x\<bar> \<noteq> 0) zs"

text \<open>
  Lines 56 to 71, "Identify potential outliers using z-scores": the count is printed
  and nothing is removed (the filter is a comment). The attribute \<open>pd.Series.zscore\<close> is
  read first, then \<open>options["threshold"]\<close>; a threshold that is a string cannot be
  compared with a float.
\<close>

definition identify_outliers ::
  "'v pandas \<Rightarrow> 'v frame \<Rightarrow> options \<Rightarrow> 'v printed \<times> (error + nat)" where
  "identify_outliers pd cleaned_df options =
     (case Series_zscore pd of
        None \<Rightarrow> ([], Inl (AttributeError ''zscore''))
      | Some zscore \<Rightarrow>
          (case zscore cleaned_df of
             Inl e \<Rightarrow> ([], Inl e)
           | Inr z_scores \<Rightarrow>
               (case options ''threshold'' of
                  None \<Rightarrow> ([], Inl (KeyError ''threshold''))
                | Some (PStr s) \<Rightarrow> ([], Inl (LibraryError ''TypeError''))
                | Some (PFloat threshold) \<Rightarrow>
                    (let outlier_count = length (filter (outlier_row threshold) z_scores)
                     in ([[Text (CHR 10 # ''Potential outliers based on z-scores (absolute value > ''),
                           Show_val (PFloat threshold), Text ''):''],
                          [Show_int (int outlier_count)],
                          [Text (if outlier_count > 0
                                 then CHR 10 # ''Outliers not handled in this example.''
                                 else CHR 10 # ''No outliers identified based on specified threshold.'')]],
                         Inr outlier_count)))))"

text \<open>
  \<open>clean_data\<close>: the three blocks in order, an exception ending the call with what was
  printed so far, and \<open>return cleaned_df\<close>.
\<close>

definition clean_data ::
  "'v pandas \<Rightarrow> 'v frame \<Rightarrow> options \<Rightarrow> 'v printed \<times> (error + 'v frame)" where
  "clean_data pd df options =
     (let missing_counts = isnull_sum df;
          out0 = [[Text ''Initial DataFrame:''], [Show_frame df],
                  [Text (CHR 10 # ''Missing values per column:'')], [Show_counts missing_counts]]
      in case handle_missing pd df options missing_counts of
           (out1, Inl e) \<Rightarrow> (out0 @ out1, Inl e)
         | (out1, Inr cleaned_df) \<Rightarrow>
             (let out2 = check_duplicates cleaned_df
              in case identify_outliers pd cleaned_df options of
                   (out3, Inl e) \<Rightarrow> (out0 @ out1 @ out2 @ out3, Inl e)
                 | (out3, Inr outlier_count) \<Rightarrow>
                     (out0 @ out1 @ out2 @ out3
                        @ [[Text (CHR 10 # ''Cleaned DataFrame:'')], [Show_frame cleaned_df]],
                      Inr cleaned_df)))"

section \<open>The inspector (data\_loader.py)\<close>

text \<open>
  The library calls of the inspection steps:
  \<^item> \<open>dtypes\<close> is \<open>df.dtypes\<close>, the dtype name of each column;
  \<^item> \<open>numeric_columns\<close> is \<open>df.select_dtypes(include=np.number).columns\<close>;
  \<^item> \<open>describe\<close>, \<open>corr\<close> are \<open>df[cols].describe()\<close> and \<open>df[cols].corr()\<close>, as rendered by
    \<open>print\<close>; selecting a name that is no column raises KeyError;
  \<^item> \<open>stats_zscore\<close> is \<open>df.apply(stats.zscore)\<close>, the rows of z-scores (\<open>None\<close> for NaN);
  \<^item> \<open>Index_bool\<close> is the truth value of a pandas Index, which \<open>if numerical_cols:\<close> asks
    for;
  \<^item> \<open>outside\<close> is \<open>df[(df[c] < lo) | (df[c] > hi)]\<close>; comparing a text column raises;
  \<^item> \<open>skew\<close> is the skewness of each numeric column among the selected ones.
\<close>

record 'v toolkit =
  dtypes :: "'v frame \<Rightarrow> string list"
  numeric_columns :: "'v frame \<Rightarrow> string list"
  describe :: "'v frame \<Rightarrow> string list \<Rightarrow> error + string"
  stats_zscore :: "'v frame \<Rightarrow> error + real option list list"
  Index_bool :: "string list \<Rightarrow> error + bool"
  outside :: "'v frame \<Rightarrow> string \<Rightarrow> real \<Rightarrow> real \<Rightarrow> error + 'v frame"
  corr :: "'v frame \<Rightarrow> string list \<Rightarrow> error + string"
  skew :: "'v frame \<Rightarrow> string list \<Rightarrow> error + (string \<times> real) list"

text \<open>
  What the inspection steps write: the items of \<open>clean_data\<close>, and also a list of
  names, a rendered library object, a list of skewness values and a drawn figure.
\<close>

datatype 'v report =
    Printed "'v out list"
  | Show_names "string list"
  | Show_obj string
  | Show_skew "(string \<times> real) list"
  | Figure string

text \<open>
  A step returns what it wrote and the exception that ended it, if any. \<open>run\<close> executes
  steps in order and stops at the first exception.
\<close>

type_synonym 'v step = "'v report list \<times> error option"

fun run :: "'v step list \<Rightarrow> 'v step" where
  "run [] = ([], None)"
| "run ((written, Some e) # steps) = (written, Some e)"
| "run ((written, None) # steps) = (case run steps of (later, r) \<Rightarrow> (written @ later, r))"

definition print_basic_info :: "'v toolkit \<Rightarrow> 'v frame \<Rightarrow> 'v step" where
  "print_basic_info tk df =
     ([Printed [Text ''The data has '', Show_int (int (fst (shape df))), Text '' rows and '',
                Show_int (int (snd (shape df))), Text '' columns.''],
       Printed [Text ''data types of the columns:''],
       Show_names (dtypes tk df)], None)"

definition check_missing_values :: "'v frame \<Rightarrow> 'v step" where
  "check_missing_values df =
     ([Printed [Text ''Number of missing values in each column:''],
       Printed [Show_counts (isnull_sum df)]], None)"

definition print_summary_stats :: "'v toolkit \<Rightarrow> 'v frame \<Rightarrow> 'v step" where
  "print_summary_stats tk df =
     (let numerical_cols = numeric_columns tk df;
          header = [Printed [Text ''Summary statistics for numerical columns:'']]
      in case describe tk df numerical_cols of
           Inl e \<Rightarrow> (header, Some e)
         | Inr d \<Rightarrow> (header @ [Show_obj d], None))"

definition check_duplicate_rows :: "'v frame \<Rightarrow> 'v step" where
  "check_duplicate_rows df =
     ([Printed [Text ''Number of duplicate rows:''],
       Printed [Show_int (int (duplicated_sum df))]], None)"

text \<open>
  \<open>df[(z_scores.abs() > 3).any(axis=1)]\<close>: the rows of \<open>df\<close> one of whose z-scores
  exceeds 3 in absolute value.
\<close>

definition beyond_three :: "real option list \<Rightarrow> bool" where
  "beyond_three zs = list_ex (\<lambda>z. case z of None \<Rightarrow> False | Some x \<Rightarrow> 3 < \<bar>x\<bar>) zs"

definition check_outliers :: "'v toolkit \<Rightarrow> 'v frame \<Rightarrow> 'v step" where
  "check_outliers tk df =
     (let header = [Printed [Text ''Potential outliers based on z-scores:'']]
      in case stats_zscore tk df of
           Inl e \<Rightarrow> (header, Some e)
         | Inr z_scores \<Rightarrow>
             (let outliers = df\<lparr>rows := map fst (filter (\<lambda>(r, zs). beyond_three zs)
                                                      (zip (rows df) z_scores))\<rparr>;
                  numerical_cols = numeric_columns tk df;
                  written = header @ [Printed [Show_frame outliers],
                                      Printed [Text ''Box plots for numerical columns:'']]
              in case Index_bool tk numerical_cols of
                   Inl e \<Rightarrow> (written, Some e)
                 | Inr True \<Rightarrow> (written @ [Figure ''box'', Figure ''show''], None)
                 | Inr False \<Rightarrow>
                     (written @ [Printed [Text ''No numerical columns found.''],
                                 Figure ''show''], None)))"

definition range_check :: "'v toolkit \<Rightarrow> 'v frame \<Rightarrow> string \<Rightarrow> real \<Rightarrow> real \<Rightarrow> 'v step" where
  "range_check tk df name lo hi =
     (if name \<in> set (columns df) then
        (case outside tk df name lo hi of
           Inl e \<Rightarrow> ([], Some e)
         | Inr violating \<Rightarrow> ([Printed [Show_frame violating]], None))
      else ([], None))"

definition check_df_ranges :: "'v toolkit \<Rightarrow> 'v frame \<Rightarrow> 'v step" where
  "check_df_ranges tk df =
     run [([Printed [Text ''df ranges or patterns:'']], None),
          range_check tk df ''Height'' 100 250,
          range_check tk df ''Weight'' 20 200]"

definition corr_header :: "'v report" where
  "corr_header = Printed [Text ''Correlation matrix for specified columns:'']"

definition perform_corr_analysis :: "'v toolkit \<Rightarrow> 'v frame \<Rightarrow> string list \<Rightarrow> 'v step" where
  "perform_corr_analysis tk df columns_for_corr =
     (case corr tk df columns_for_corr of
        Inl e \<Rightarrow> ([corr_header], Some e)
      | Inr corr_matrix \<Rightarrow> ([corr_header, Show_obj corr_matrix], None))"

definition skew_header :: "'v report" where
  "skew_header = Printed [Text ''Columns with skewed distributions:'']"

definition check_skewness :: "'v toolkit \<Rightarrow> 'v frame \<Rightarrow> string list \<Rightarrow> 'v step" where
  "check_skewness tk df columns_for_skewness =
     (case skew tk df columns_for_skewness of
        Inl e \<Rightarrow> ([skew_header], Some e)
      | Inr skewed_columns \<Rightarrow>
          ([skew_header, Show_skew (filter (\<lambda>(c, s). \<bar>s\<bar> > 0.5) skewed_columns)], None))"

definition perform_visual_exploration :: "'v toolkit \<Rightarrow> 'v frame \<Rightarrow> 'v step" where
  "perform_visual_exploration tk df =
     (let header = [Printed [Text ''Visual exploration of the df:'']];
          numerical_cols = numeric_columns tk df
      in case Index_bool tk numerical_cols of
           Inl e \<Rightarrow> (header, Some e)
         | Inr True \<Rightarrow> (header @ [Figure ''hist'', Figure ''show''], None)
         | Inr False \<Rightarrow> (header, None))"

definition perform_time_series_analysis :: "'v frame \<Rightarrow> 'v step" where
  "perform_time_series_analysis df =
     ([Printed [Text ''Visualizing time-related patterns:'']], None)"

text \<open>
  An optional list argument is \<open>None\<close> or a list; \<open>if columns_for_corr:\<close> holds for a
  list that is not empty.
\<close>

definition truthy :: "string list option \<Rightarrow> bool" where
  "truthy cols = (case cols of Some (c # cs) \<Rightarrow> True | _ \<Rightarrow> False)"

definition optional_step :: "string list option \<Rightarrow> (string list \<Rightarrow> 'v step) \<Rightarrow> 'v step list" where
  "optional_step cols step = (case cols of Some (c # cs) \<Rightarrow> [step (c # cs)] | _ \<Rightarrow> [])"

definition inspect_data ::
  "'v toolkit \<Rightarrow> 'v frame \<Rightarrow> string list option \<Rightarrow> string list option \<Rightarrow> 'v step" where
  "inspect_data tk df columns_for_corr columns_for_skewness =
     run ([print_basic_info tk df,
           check_missing_values df,
           print_summary_stats tk df,
           check_duplicate_rows df,
           check_outliers tk df,
           check_df_ranges tk df]
          @ optional_step columns_for_corr (perform_corr_analysis tk df)
          @ optional_step columns_for_skewness (check_skewness tk df)
          @ [perform_visual_exploration tk df,
             perform_time_series_analysis df])"

section \<open>Concrete inputs\<close>

text \<open>Concrete inputs used to exercise the theorems.\<close>

definition two_rows :: "int frame" where
  "two_rows = \<lparr>columns = [''h'', ''w''], rows = [[Some 1, Some 2], [Some 3, Some 4]]\<rparr>"

definition header_only :: "int frame" where
  "header_only = \<lparr>columns = [''h'', ''w''], rows = []\<rparr>"

text \<open>
  A file system with five files: a CSV file, a JSON document saved under a \<open>.csv\<close>
  name (content sniffing would call it \<open>json\<close>), a CSV file with a header line and no
  data line, a CSV file of zero bytes (the reader raises pandas' EmptyDataError) and
  a Parquet file. The pandas of this installation is the released one, whose
  \<open>pandas.errors\<close> defines EmptyDataError and no \<open>EmptydfError\<close>.
\<close>

definition disk :: "int files" where
  "disk = \<lparr>
     guess_type = (\<lambda>p. if p \<in> set [''/data/a.csv'', ''/data/j.csv'', ''/data/h.csv'',
                                     ''/data/e.csv'']
                        then Some ''text/csv'' else None),
     filetype_guess = (\<lambda>p. if p = ''/data/j.csv'' then Inr (Some ''json'') else Inr None),
     read_csv = (\<lambda>p. if p = ''/data/a.csv'' then Inr two_rows
                      else if p = ''/data/h.csv'' then Inr header_only
                      else if p = ''/data/e.csv'' then Inl (LibraryError ''EmptyDataError'')
                      else Inl (LibraryError ''ParserError'')),
     read_excel = (\<lambda>p. Inl (LibraryError ''BadZipFile'')),
     read_json = (\<lambda>p. if p = ''/data/j.csv'' then Inr two_rows
                       else Inl (LibraryError ''ValueError'')),
     errors_EmptydfError = None\<rparr>"

text \<open>
  Tables with one column \<open>h\<close>: six readings of which the third is missing, the five
  complete readings (four equal rows and one far value), and the table of the
  specification's scenario.
\<close>

definition readings :: "int frame" where
  "readings = \<lparr>columns = [''h''],
     rows = [[Some 1], [Some 1], [None], [Some 1], [Some 1], [Some 6]]\<rparr>"

definition full_readings :: "int frame" where
  "full_readings = \<lparr>columns = [''h''],
     rows = [[Some 1], [Some 1], [Some 1], [Some 1], [Some 6]]\<rparr>"

definition scenario :: "int frame" where
  "scenario = \<lparr>columns = [''h''], rows = [[None], [Some 1], [Some 1]]\<rparr>"

definition cleaning_options :: "string \<Rightarrow> real \<Rightarrow> options" where
  "cleaning_options method threshold =
     [''method'' \<mapsto> PStr method, ''threshold'' \<mapsto> PFloat threshold]"

text \<open>
  Z-scores (mean 2 and standard deviation 2 for \<open>full_readings\<close>; a constant column has
  none), tabulated for the tables above.
\<close>

definition zscore_table :: "int frame \<Rightarrow> error + real option list list" where
  "zscore_table df =
     (if df = full_readings
      then Inr [[Some (- 1 / 2)], [Some (- 1 / 2)], [Some (- 1 / 2)], [Some (- 1 / 2)], [Some 2]]
      else if df = dropna scenario then Inr [[None], [None]]
      else Inl (LibraryError ''not tabulated''))"

text \<open>
  Two pandas namespaces: one that offers \<open>Series.zscore\<close>, as \<open>clean_data\<close> is written
  against, and one without that attribute, as pandas is released (its Series class
  defines no \<open>zscore\<close>; the z-score function that \<open>check_outliers\<close> calls is
  \<open>scipy.stats.zscore\<close>). \<open>fillna\<close> is not reached by the inputs used here.
\<close>

definition pandas_with_zscore :: "int pandas" where
  "pandas_with_zscore =
     \<lparr>Series_zscore = Some zscore_table, fillna = (\<lambda>df. Inl (LibraryError ''fillna''))\<rparr>"

definition pandas_released :: "int pandas" where
  "pandas_released =
     \<lparr>Series_zscore = None, fillna = (\<lambda>df. Inl (LibraryError ''fillna''))\<rparr>"

text \<open>
  Two toolkits for the inspector that differ in the truth value of an Index: the
  released pandas raises ValueError for every Index ("The truth value of a Index is
  ambiguous"); the other answers whether the Index has an element, which is what the
  \<open>else\<close> branch of \<open>check_outliers\<close> expects.
\<close>

definition toolkit_released :: "int toolkit" where
  "toolkit_released =
     \<lparr>dtypes = (\<lambda>df. map (\<lambda>c. ''int64'') (columns df)),
      numeric_columns = columns,
      describe = (\<lambda>df cols. Inr ''count mean std min 25% 50% 75% max''),
      stats_zscore = zscore_table,
      Index_bool = (\<lambda>cols. Inl (ValueError ''The truth value of a Index is ambiguous.'')),
      outside = (\<lambda>df c lo hi. Inr (df\<lparr>rows := []\<rparr>)),
      corr = (\<lambda>df cols. Inr ''1.0''),
      skew = (\<lambda>df cols. Inr (map (\<lambda>c. (c, 3 / 2)) cols))\<rparr>"

definition toolkit_lenient :: "int toolkit" where
  "toolkit_lenient = toolkit_released\<lparr>Index_bool := (\<lambda>cols. Inr (cols \<noteq> []))\<rparr>"

section \<open>Properties of the loader\<close>


lemma str_split_no_sep: "sep \<notin> set s \<Longrightarrow> str_split sep s = [s]"
  by (induction s) auto




lemma try_infer_format_content:
  assumes "guess_type env p = None \<or> guess_type env p = Some []"
    and "filetype_guess env p = Inr (Some ext)"
  shows "try_infer_format env p = Inr ext"
  using assms by (auto simp: try_infer_format_def)

lemma try_infer_format_fallback:
  assumes "guess_type env p = None \<or> guess_type env p = Some []"
    and "filetype_guess env p = Inr None"
  shows "try_infer_format env p = Inr (extension_fallback p)"
  using assms by (auto simp: try_infer_format_def)

text \<open>
  When the reader raises, \<open>load_data\<close> matches the exception against the \<open>except\<close>
  clause: where \<open>pandas.errors\<close> has no \<open>EmptydfError\<close> the call ends in AttributeError,
  whatever the reader raised; where it has, an instance becomes the "is empty"
  ValueError. The file of zero bytes is the first case.
\<close>

lemma load_data_reader_raises:
  assumes "try_infer_format env p = Inr ''csv''" and "read_csv env p = Inl e"
  shows "load_data env p =
     (case errors_EmptydfError env of
        None \<Rightarrow> Inl (AttributeError ''EmptydfError'')
      | Some is_instance \<Rightarrow> if is_instance e then Inl (EmptyFile_parser p) else Inl e)"
  using assms by (simp add: load_data_def)

lemma load_data_zero_bytes:
  "load_data disk ''/data/e.csv'' = Inl (AttributeError ''EmptydfError'')"
  by (simp add: load_data_def try_infer_format_def disk_def)





text \<open>
  C3. When the inferred tag is none of csv, xlsx, json, \<open>load_data\<close> returns no table:
  it raises the "Unsupported file format" ValueError, which names the tag.
\<close>

theorem load_data_unsupported:
  assumes "try_infer_format env p = Inr t"
    and "t \<notin> {''csv'', ''xlsx'', ''json''}"
  shows "load_data env p = Inl (UnsupportedFormat t)"
  using assms by (simp add: load_data_def)

theorem load_data_unsupported_witness:
  "load_data disk ''/data/t.PARQUET'' = Inl (UnsupportedFormat ''parquet'')"
proof -
  have t: "try_infer_format disk ''/data/t.PARQUET'' = Inr ''parquet''"
    by code_simp
  have n: "''parquet'' \<notin> {''csv'', ''xlsx'', ''json''}"
    by simp
  show ?thesis
    using load_data_unsupported [OF t n] .
qed



section \<open>Properties of the cleaner\<close>

lemma series_any_isnull_sum:
  assumes "rectangular df"
  shows "series_any (isnull_sum df) = list_ex has_missing (rows df)"
proof -
  have len: "\<And>r. r \<in> set (rows df) \<Longrightarrow> length r = length (columns df)"
    using assms by (simp add: rectangular_def list_all_iff)
  have "series_any (isnull_sum df)
      = (\<exists>j < length (columns df). \<exists>r \<in> set (rows df). r ! j = None)"
    by (auto simp: series_any_def isnull_sum_def list_ex_iff filter_empty_conv)
  also have "\<dots> = (\<exists>r \<in> set (rows df). \<exists>j < length r. r ! j = None)"
    using len by auto
  also have "\<dots> = list_ex has_missing (rows df)"
    by (auto simp: has_missing_def list_ex_iff in_set_conv_nth)
  finally show ?thesis .
qed

lemma dropna_complete:
  assumes "\<not> list_ex has_missing (rows df)"
  shows "dropna df = df"
proof -
  have "filter (\<lambda>r. \<not> has_missing r) (rows df) = rows df"
    using assms by (simp add: list_ex_iff)
  then show ?thesis
    by (simp add: dropna_def)
qed

lemma length_dropna:
  "length (rows (dropna df)) + length (filter has_missing (rows df)) = length (rows df)"
  using sum_length_filter_compl [of has_missing "rows df"] by (simp add: dropna_def)

lemma dropna_no_missing: "list_all (\<lambda>r. \<not> has_missing r) (rows (dropna df))"
  by (simp add: dropna_def list_all_iff)

lemma handle_missing_complete:
  assumes "rectangular df" and "\<not> list_ex has_missing (rows df)"
  shows "handle_missing pd df options (isnull_sum df) = ([], Inr df)"
  using assms by (simp add: handle_missing_def series_any_isnull_sum)

lemma handle_missing_dropna:
  assumes "rectangular df" and "options ''method'' = Some (PStr ''dropna'')"
  shows "snd (handle_missing pd df options (isnull_sum df)) = Inr (dropna df)"
proof (cases "list_ex has_missing (rows df)")
  case True
  with assms show ?thesis
    by (simp add: handle_missing_def series_any_isnull_sum Let_def)
next
  case False
  with assms show ?thesis
    by (simp add: handle_missing_complete dropna_complete)
qed

lemma clean_data_result:
  "snd (clean_data pd df options) =
     (case snd (handle_missing pd df options (isnull_sum df)) of
        Inl e \<Rightarrow> Inl e
      | Inr cleaned_df \<Rightarrow>
          (case snd (identify_outliers pd cleaned_df options) of
             Inl e \<Rightarrow> Inl e
           | Inr outlier_count \<Rightarrow> Inr cleaned_df))"
  by (simp add: clean_data_def Let_def split: prod.splits sum.splits)

lemma identify_outliers_no_attribute:
  assumes "Series_zscore pd = None"
  shows "identify_outliers pd df options = ([], Inl (AttributeError ''zscore''))"
  using assms by (simp add: identify_outliers_def)

lemma clean_data_needs_zscore:
  assumes "Series_zscore pd = None"
  shows "\<exists>e. snd (clean_data pd df options) = Inl e"
  using assms
  by (simp add: clean_data_result identify_outliers_no_attribute split: sum.splits)

lemma clean_data_complete:
  assumes "rectangular df" and "\<not> list_ex has_missing (rows df)"
  shows "snd (clean_data pd df options) =
     (case snd (identify_outliers pd df options) of
        Inl e \<Rightarrow> Inl e
      | Inr outlier_count \<Rightarrow> Inr df)"
  using assms by (simp add: clean_data_result handle_missing_complete)

lemma identify_outliers_complete:
  "identify_outliers pandas_with_zscore full_readings (cleaning_options m (3 / 2))
     = ([[Text (CHR 10 # ''Potential outliers based on z-scores (absolute value > ''),
          Show_val (PFloat (3 / 2)), Text ''):''],
         [Show_int 1],
         [Text (CHR 10 # ''Outliers not handled in this example.'')]], Inr 1)"
  by (simp add: identify_outliers_def pandas_with_zscore_def zscore_table_def
      cleaning_options_def outlier_row_def)

lemma dropna_readings: "dropna readings = full_readings"
  by (simp add: dropna_def readings_def full_readings_def has_missing_def)

lemma rectangular_readings: "rectangular readings"
  by (simp add: rectangular_def readings_def)

lemma rectangular_complete: "rectangular full_readings"
  by (simp add: rectangular_def full_readings_def)

lemma complete_no_missing: "\<not> list_ex has_missing (rows full_readings)"
  by (simp add: full_readings_def has_missing_def)

lemma readings_missing: "list_ex has_missing (rows readings)"
  by (simp add: readings_def has_missing_def)

lemma duplicated_sum_complete: "duplicated_sum full_readings = 3"
  by (simp add: duplicated_sum_def full_readings_def)

text \<open>
  The scenario of the specification: of the rows NaN, 1, 1 the last two are kept, one
  duplicate is reported and, the column being constant, no outlier.
\<close>

lemma clean_data_scenario:
  "clean_data pandas_with_zscore scenario (cleaning_options ''dropna'' 3) =
     ([[Text ''Initial DataFrame:''], [Show_frame scenario],
       [Text (CHR 10 # ''Missing values per column:'')], [Show_counts [1]],
       [Text (CHR 10 # ''Dropped rows with missing values:''), Show_int 1],
       [Text (CHR 10 # ''Number of duplicate rows:''), Show_int 1],
       [Text (CHR 10 # ''Duplicate rows not handled in this example.'')],
       [Text (CHR 10 # ''Potential outliers based on z-scores (absolute value > ''),
        Show_val (PFloat 3), Text ''):''],
       [Show_int 0],
       [Text (CHR 10 # ''No outliers identified based on specified threshold.'')],
       [Text (CHR 10 # ''Cleaned DataFrame:'')],
       [Show_frame \<lparr>columns = [''h''], rows = [[Some 1], [Some 1]]\<rparr>]],
      Inr \<lparr>columns = [''h''], rows = [[Some 1], [Some 1]]\<rparr>)"
  by (simp add: clean_data_def scenario_def isnull_sum_def handle_missing_def series_any_def
      cleaning_options_def dropna_def has_missing_def shape_def check_duplicates_def
      duplicated_sum_def identify_outliers_def pandas_with_zscore_def zscore_table_def
      outlier_row_def full_readings_def Let_def)

text \<open>
  C5, as amended. With \<open>options["method"]\<close> equal to \<open>"dropna"\<close>, the missing-value step
  of \<open>clean_data\<close> on a table of N rows, M of them with a missing value, yields the table
  of the N - M rows without one, in order; \<open>clean_data\<close> returns no other table, and it
  returns this one whenever the outlier diagnostic completes.
\<close>

theorem clean_data_dropna:
  assumes "rectangular df" and "options ''method'' = Some (PStr ''dropna'')"
  shows "snd (handle_missing pd df options (isnull_sum df)) = Inr (dropna df)
       \<and> length (rows (dropna df))
           = length (rows df) - length (filter has_missing (rows df))
       \<and> list_all (\<lambda>r. \<not> has_missing r) (rows (dropna df))
       \<and> (\<forall>t. snd (clean_data pd df options) = Inr t \<longrightarrow> t = dropna df)
       \<and> ((\<exists>k. snd (identify_outliers pd (dropna df) options) = Inr k)
            \<longrightarrow> snd (clean_data pd df options) = Inr (dropna df))"
proof -
  have step: "snd (handle_missing pd df options (isnull_sum df)) = Inr (dropna df)"
    using assms by (rule handle_missing_dropna)
  have count: "length (rows (dropna df))
      = length (rows df) - length (filter has_missing (rows df))"
    using length_dropna [of df] by arith
  have only: "\<forall>t. snd (clean_data pd df options) = Inr t \<longrightarrow> t = dropna df"
    by (auto simp: clean_data_result step split: sum.splits)
  have live: "(\<exists>k. snd (identify_outliers pd (dropna df) options) = Inr k)
      \<longrightarrow> snd (clean_data pd df options) = Inr (dropna df)"
    by (auto simp: clean_data_result step)
  from step count dropna_no_missing [of df] only live show ?thesis
    by blast
qed

theorem clean_data_dropna_witness:
  "snd (clean_data pandas_with_zscore readings (cleaning_options ''dropna'' (3 / 2)))
     = Inr full_readings
   \<and> length (rows readings) = 6
   \<and> length (filter has_missing (rows readings)) = 1
   \<and> length (rows full_readings) = 5
   \<and> list_all (\<lambda>r. \<not> has_missing r) (rows full_readings)"
proof -
  have m: "cleaning_options ''dropna'' (3 / 2) ''method'' = Some (PStr ''dropna'')"
    by (simp add: cleaning_options_def)
  have k: "\<exists>k. snd (identify_outliers pandas_with_zscore (dropna readings)
      (cleaning_options ''dropna'' (3 / 2))) = Inr k"
    by (simp add: dropna_readings identify_outliers_complete)
  have n: "length (rows readings) = 6" "length (filter has_missing (rows readings)) = 1"
    by (simp_all add: readings_def has_missing_def)
  show ?thesis
    using clean_data_dropna [where df = readings and pd = pandas_with_zscore
        and options = "cleaning_options ''dropna'' (3 / 2)"] rectangular_readings m k n
    by (simp add: dropna_readings)
qed

text \<open>
  C5 as stated fails: \<open>"drop-missing"\<close> is not a method that \<open>clean_data\<close> knows, so on a
  table with a missing value it raises the invalid-method ValueError. Under the
  method name of the code, \<open>"dropna"\<close>, the rows are dropped, and with the released
  pandas the call then ends in the AttributeError of the outlier diagnostic.
\<close>

theorem clean_data_drop_missing_counterexample:
  "snd (clean_data pandas_with_zscore readings (cleaning_options ''drop-missing'' 3))
     = Inl InvalidCleaningMethod
   \<and> snd (clean_data pandas_released readings (cleaning_options ''dropna'' 3))
     = Inl (AttributeError ''zscore'')"
proof -
  have "snd (clean_data pandas_with_zscore readings (cleaning_options ''drop-missing'' 3))
      = Inl InvalidCleaningMethod"
    by (simp add: clean_data_result handle_missing_def rectangular_readings
        series_any_isnull_sum readings_missing cleaning_options_def)
  moreover have "snd (clean_data pandas_released readings (cleaning_options ''dropna'' 3))
      = Inl (AttributeError ''zscore'')"
    by (simp add: clean_data_result handle_missing_dropna rectangular_readings
        cleaning_options_def identify_outliers_no_attribute pandas_released_def)
  ultimately show ?thesis
    by blast
qed

text \<open>
  C6, as amended. On a table with at least one missing value, a method that is neither
  \<open>"dropna"\<close> nor \<open>"fillna"\<close> makes \<open>clean_data\<close> raise the invalid-method ValueError: no
  table is returned, and all that was printed is the table as given and its counts of
  missing values.
\<close>

theorem clean_data_invalid_method:
  assumes "rectangular df" and "list_ex has_missing (rows df)"
    and "options ''method'' = Some m" and "m \<noteq> PStr ''dropna''" and "m \<noteq> PStr ''fillna''"
  shows "clean_data pd df options =
     ([[Text ''Initial DataFrame:''], [Show_frame df],
       [Text (CHR 10 # ''Missing values per column:'')], [Show_counts (isnull_sum df)]],
      Inl InvalidCleaningMethod)"
  using assms by (simp add: clean_data_def handle_missing_def series_any_isnull_sum)

theorem clean_data_invalid_method_witness:
  "clean_data pandas_with_zscore readings (cleaning_options ''drop-missing'' 3) =
     ([[Text ''Initial DataFrame:''], [Show_frame readings],
       [Text (CHR 10 # ''Missing values per column:'')], [Show_counts [1]]],
      Inl InvalidCleaningMethod)"
proof -
  have m: "cleaning_options ''drop-missing'' 3 ''method'' = Some (PStr ''drop-missing'')"
    by (simp add: cleaning_options_def)
  have c: "isnull_sum readings = [1]"
    by (simp add: isnull_sum_def readings_def)
  show ?thesis
    using clean_data_invalid_method [where df = readings and pd = pandas_with_zscore
        and options = "cleaning_options ''drop-missing'' 3" and m = "PStr ''drop-missing''"]
      rectangular_readings readings_missing m c
    by simp
qed

text \<open>
  C6 as stated fails twice. On a table without a missing value the method is never
  read, so an unknown method raises no invalid-method error: a table is returned when
  the outlier diagnostic completes, and the error is the diagnostic's own otherwise.
  And \<open>"dropna"\<close>, which is neither \<open>"drop-missing"\<close> nor \<open>"fill-missing"\<close>, is accepted on
  a table with a missing value.
\<close>

theorem clean_data_invalid_method_counterexample:
  "snd (clean_data pandas_with_zscore full_readings (cleaning_options ''bogus'' (3 / 2)))
     = Inr full_readings
   \<and> snd (clean_data pandas_released full_readings (cleaning_options ''bogus'' (3 / 2)))
     = Inl (AttributeError ''zscore'')
   \<and> snd (clean_data pandas_with_zscore readings (cleaning_options ''dropna'' (3 / 2)))
     = Inr full_readings"
proof -
  have "snd (clean_data pandas_with_zscore full_readings (cleaning_options ''bogus'' (3 / 2)))
      = Inr full_readings"
    by (simp add: clean_data_complete rectangular_complete complete_no_missing
        identify_outliers_complete)
  moreover have "snd (clean_data pandas_released full_readings (cleaning_options ''bogus'' (3 / 2)))
      = Inl (AttributeError ''zscore'')"
    by (simp add: clean_data_complete rectangular_complete complete_no_missing
        identify_outliers_no_attribute pandas_released_def)
  moreover have "snd (clean_data pandas_with_zscore readings
      (cleaning_options ''dropna'' (3 / 2))) = Inr full_readings"
    by (simp add: clean_data_result handle_missing_dropna rectangular_readings
        cleaning_options_def dropna_readings identify_outliers_complete [unfolded cleaning_options_def])
  ultimately show ?thesis
    by blast
qed

text \<open>
  C7. The table that \<open>clean_data\<close> returns is the table of the missing-value step, rows
  and values alike: \<open>clean_data\<close> returns \<open>t\<close> exactly when that step yields \<open>t\<close> and the
  outlier diagnostic on \<open>t\<close> completes, whatever the counts of duplicates and outliers
  are. In the witness three duplicate rows and one outlier row are reported and kept.
\<close>

theorem clean_data_keeps_rows:
  "(snd (clean_data pd df options) = Inr t) =
     (snd (handle_missing pd df options (isnull_sum df)) = Inr t
      \<and> (\<exists>k. snd (identify_outliers pd t options) = Inr k))"
  by (auto simp: clean_data_result split: sum.splits)

theorem clean_data_keeps_rows_witness:
  "snd (clean_data pandas_with_zscore readings (cleaning_options ''dropna'' (3 / 2)))
     = Inr full_readings
   \<and> duplicated_sum full_readings = 3
   \<and> snd (identify_outliers pandas_with_zscore full_readings (cleaning_options ''dropna'' (3 / 2)))
     = Inr 1"
proof -
  have h: "snd (handle_missing pandas_with_zscore readings
      (cleaning_options ''dropna'' (3 / 2)) (isnull_sum readings)) = Inr full_readings"
    using handle_missing_dropna [OF rectangular_readings, of "cleaning_options ''dropna'' (3 / 2)"]
    by (simp add: cleaning_options_def dropna_readings)
  have k: "snd (identify_outliers pandas_with_zscore full_readings
      (cleaning_options ''dropna'' (3 / 2))) = Inr 1"
    by (simp add: identify_outliers_complete)
  show ?thesis
    using clean_data_keeps_rows [of pandas_with_zscore readings
        "cleaning_options ''dropna'' (3 / 2)" full_readings] h k duplicated_sum_complete
    by simp
qed

text \<open>
  C8. On a table without a missing value the missing-value step is the identity, but
  \<open>clean_data\<close> does not return: with the released pandas the outlier diagnostic raises
  AttributeError when it reads \<open>pd.Series.zscore\<close>, under the method name of the
  specification and under the one of the code alike.
\<close>

theorem clean_data_identity_fails:
  "snd (handle_missing pandas_released full_readings (cleaning_options ''drop-missing'' 3)
         (isnull_sum full_readings)) = Inr full_readings
   \<and> snd (clean_data pandas_released full_readings (cleaning_options ''drop-missing'' 3))
       = Inl (AttributeError ''zscore'')
   \<and> snd (clean_data pandas_released full_readings (cleaning_options ''dropna'' 3))
       = Inl (AttributeError ''zscore'')"
  by (simp add: clean_data_complete handle_missing_complete rectangular_complete
      complete_no_missing identify_outliers_no_attribute pandas_released_def)

text \<open>
  C10. On a table without a missing value an unknown method is not rejected (the
  method is never read), but \<open>clean_data\<close> raises all the same: with the released pandas
  the outlier diagnostic raises AttributeError when it reads \<open>pd.Series.zscore\<close>.
\<close>

theorem clean_data_unvalidated_method_fails:
  "snd (handle_missing pandas_released full_readings (cleaning_options ''bogus'' 3)
         (isnull_sum full_readings)) = Inr full_readings
   \<and> snd (clean_data pandas_released full_readings (cleaning_options ''bogus'' 3))
       = Inl (AttributeError ''zscore'')"
  by (simp add: clean_data_complete handle_missing_complete rectangular_complete
      complete_no_missing identify_outliers_no_attribute pandas_released_def)

section \<open>Properties of the inspector\<close>

lemma run_written:
  "x \<in> set (fst (run steps)) \<Longrightarrow> \<exists>s \<in> set steps. x \<in> set (fst s)"
proof (induction steps rule: run.induct)
  case 1
  then show ?case by simp
next
  case (2 written e steps)
  then show ?case by simp
next
  case (3 written steps)
  then show ?case by (auto split: prod.splits)
qed

lemma run_completes:
  "snd (run steps) = None \<Longrightarrow> fst (run steps) = concat (map fst steps)"
proof (induction steps rule: run.induct)
  case 1
  then show ?case by simp
next
  case (2 written e steps)
  then show ?case by simp
next
  case (3 written steps)
  then show ?case by (auto split: prod.splits)
qed

lemma run_Cons_returned:
  "snd s = None \<Longrightarrow> run (s # steps) = (fst s @ fst (run steps), snd (run steps))"
  by (cases s) (auto split: prod.splits)

lemma run_Cons_raised:
  "snd s = Some e \<Longrightarrow> run (s # steps) = (fst s, Some e)"
  by (cases s) auto

lemma optional_step_truthy:
  "optional_step cols step = (if truthy cols then [step (the cols)] else [])"
  by (simp add: optional_step_def truthy_def split: option.splits list.splits)

lemma check_outliers_Index_raises:
  assumes "Index_bool tk (numeric_columns tk df) = Inl e"
  shows "\<exists>e'. snd (check_outliers tk df) = Some e'"
  using assms by (simp add: check_outliers_def Let_def split: sum.splits)

lemma check_outliers_written:
  "corr_header \<notin> set (fst (check_outliers tk df))
   \<and> skew_header \<notin> set (fst (check_outliers tk df))"
  by (simp add: check_outliers_def corr_header_def skew_header_def Let_def
      split: sum.splits bool.splits)

lemma print_summary_stats_written:
  "corr_header \<notin> set (fst (print_summary_stats tk df))
   \<and> skew_header \<notin> set (fst (print_summary_stats tk df))"
  by (simp add: print_summary_stats_def corr_header_def skew_header_def Let_def
      split: sum.splits)

lemma range_check_written:
  "corr_header \<notin> set (fst (range_check tk df name lo hi))
   \<and> skew_header \<notin> set (fst (range_check tk df name lo hi))"
  by (simp add: range_check_def corr_header_def skew_header_def split: sum.splits)

lemma check_df_ranges_written:
  "corr_header \<notin> set (fst (check_df_ranges tk df))
   \<and> skew_header \<notin> set (fst (check_df_ranges tk df))"
proof -
  have "\<And>x. x \<in> set (fst (check_df_ranges tk df)) \<Longrightarrow> x \<noteq> corr_header \<and> x \<noteq> skew_header"
  proof -
    fix x :: "'a report"
    assume "x \<in> set (fst (check_df_ranges tk df))"
    then obtain s where s: "s \<in> set [([Printed [Text ''df ranges or patterns:'']], None),
          range_check tk df ''Height'' 100 250, range_check tk df ''Weight'' 20 200]"
      and x: "x \<in> set (fst s)"
      unfolding check_df_ranges_def by (blast dest: run_written)
    from s x show "x \<noteq> corr_header \<and> x \<noteq> skew_header"
      using range_check_written [of tk df]
      by (auto simp: corr_header_def skew_header_def)
  qed
  then show ?thesis by blast
qed

lemma perform_visual_exploration_written:
  "corr_header \<notin> set (fst (perform_visual_exploration tk df))
   \<and> skew_header \<notin> set (fst (perform_visual_exploration tk df))"
  by (simp add: perform_visual_exploration_def corr_header_def skew_header_def Let_def
      split: sum.splits bool.splits)

lemma perform_corr_analysis_written:
  "corr_header \<in> set (fst (perform_corr_analysis tk df cols))
   \<and> skew_header \<notin> set (fst (perform_corr_analysis tk df cols))"
  by (simp add: perform_corr_analysis_def corr_header_def skew_header_def split: sum.splits)

lemma check_skewness_written:
  "skew_header \<in> set (fst (check_skewness tk df cols))
   \<and> corr_header \<notin> set (fst (check_skewness tk df cols))"
  by (simp add: check_skewness_def corr_header_def skew_header_def split: sum.splits)

lemma first_steps_written:
  "corr_header \<notin> set (fst (print_basic_info tk df))
   \<and> skew_header \<notin> set (fst (print_basic_info tk df))
   \<and> corr_header \<notin> set (fst (check_missing_values df))
   \<and> skew_header \<notin> set (fst (check_missing_values df))
   \<and> corr_header \<notin> set (fst (check_duplicate_rows df))
   \<and> skew_header \<notin> set (fst (check_duplicate_rows df))
   \<and> corr_header \<notin> set (fst (perform_time_series_analysis df))
   \<and> skew_header \<notin> set (fst (perform_time_series_analysis df))"
  by (simp add: print_basic_info_def check_missing_values_def check_duplicate_rows_def
      perform_time_series_analysis_def corr_header_def skew_header_def)

text \<open>
  When \<open>inspect_data\<close> runs to its end, the correlation section is in the report
  exactly when \<open>columns_for_corr\<close> is a list that is not empty, and the skewness section
  exactly when \<open>columns_for_skewness\<close> is.
\<close>

lemma inspect_data_gating:
  assumes "snd (inspect_data tk df columns_for_corr columns_for_skewness) = None"
  shows "(corr_header \<in> set (fst (inspect_data tk df columns_for_corr columns_for_skewness)))
           = truthy columns_for_corr
       \<and> (skew_header \<in> set (fst (inspect_data tk df columns_for_corr columns_for_skewness)))
           = truthy columns_for_skewness"
proof -
  have "fst (inspect_data tk df columns_for_corr columns_for_skewness)
      = concat (map fst ([print_basic_info tk df, check_missing_values df,
           print_summary_stats tk df, check_duplicate_rows df, check_outliers tk df,
           check_df_ranges tk df]
          @ optional_step columns_for_corr (perform_corr_analysis tk df)
          @ optional_step columns_for_skewness (check_skewness tk df)
          @ [perform_visual_exploration tk df, perform_time_series_analysis df]))"
    using assms unfolding inspect_data_def by (rule run_completes)
  then show ?thesis
    using first_steps_written [of tk df] print_summary_stats_written [of tk df]
      check_outliers_written [of tk df] check_df_ranges_written [of tk df]
      perform_visual_exploration_written [of tk df]
      perform_corr_analysis_written [of tk df] check_skewness_written [of tk df]
    by (simp add: optional_step_truthy)
qed

text \<open>
  When the truth value of the Index of numeric columns raises, \<open>inspect_data\<close> ends in
  an exception no later than \<open>check_outliers\<close>, its fifth step, and the report has
  neither a correlation nor a skewness section, whatever the optional arguments are.
\<close>

lemma inspect_data_Index_raises:
  assumes "Index_bool tk (numeric_columns tk df) = Inl e"
  shows "snd (inspect_data tk df columns_for_corr columns_for_skewness) \<noteq> None
       \<and> corr_header \<notin> set (fst (inspect_data tk df columns_for_corr columns_for_skewness))
       \<and> skew_header \<notin> set (fst (inspect_data tk df columns_for_corr columns_for_skewness))"
proof -
  obtain e' where o: "snd (check_outliers tk df) = Some e'"
    using check_outliers_Index_raises [OF assms] by blast
  have b: "snd (print_basic_info tk df) = None" "snd (check_missing_values df) = None"
    "snd (check_duplicate_rows df) = None"
    by (simp_all add: print_basic_info_def check_missing_values_def check_duplicate_rows_def)
  show ?thesis
  proof (cases "snd (print_summary_stats tk df)")
    case None
    then have "inspect_data tk df columns_for_corr columns_for_skewness
        = (fst (print_basic_info tk df) @ fst (check_missing_values df)
           @ fst (print_summary_stats tk df) @ fst (check_duplicate_rows df)
           @ fst (check_outliers tk df), Some e')"
      using b o by (simp add: inspect_data_def run_Cons_returned run_Cons_raised)
    then show ?thesis
      using first_steps_written [of tk df] print_summary_stats_written [of tk df]
        check_outliers_written [of tk df]
      by simp
  next
    case (Some e'')
    then have "inspect_data tk df columns_for_corr columns_for_skewness
        = (fst (print_basic_info tk df) @ fst (check_missing_values df)
           @ fst (print_summary_stats tk df), Some e'')"
      using b by (simp add: inspect_data_def run_Cons_returned run_Cons_raised)
    then show ?thesis
      using first_steps_written [of tk df] print_summary_stats_written [of tk df]
      by simp
  qed
qed

lemma inspect_data_lenient:
  "snd (inspect_data toolkit_lenient full_readings (Some [''h'']) None) = None
   \<and> corr_header \<in> set (fst (inspect_data toolkit_lenient full_readings (Some [''h'']) None))
   \<and> skew_header \<notin> set (fst (inspect_data toolkit_lenient full_readings (Some [''h'']) None))"
proof -
  have r: "snd (inspect_data toolkit_lenient full_readings (Some [''h'']) None) = None"
    by (simp add: inspect_data_def toolkit_lenient_def toolkit_released_def
        print_basic_info_def check_missing_values_def print_summary_stats_def
        check_duplicate_rows_def check_outliers_def check_df_ranges_def range_check_def
        perform_corr_analysis_def perform_visual_exploration_def
        perform_time_series_analysis_def optional_step_def zscore_table_def
        full_readings_def Let_def)
  show ?thesis
    using inspect_data_gating [OF r] r by (simp add: truthy_def)
qed

text \<open>
  C9. With the released pandas, \<open>inspect_data\<close> on the five complete readings, asked
  for the correlation and the skewness of column \<open>h\<close>, raises ValueError in
  \<open>check_outliers\<close> (the truth value of an Index is asked for); the steps after the
  fifth do not run, and the report has no correlation section and no skewness section.
\<close>

theorem inspect_data_stops_at_outliers:
  "snd (inspect_data toolkit_released full_readings (Some [''h'']) (Some [''h'']))
     = Some (ValueError ''The truth value of a Index is ambiguous.'')
   \<and> corr_header \<notin> set (fst (inspect_data toolkit_released full_readings
        (Some [''h'']) (Some [''h''])))
   \<and> skew_header \<notin> set (fst (inspect_data toolkit_released full_readings
        (Some [''h'']) (Some [''h''])))"
proof -
  have i: "Index_bool toolkit_released (numeric_columns toolkit_released full_readings)
      = Inl (ValueError ''The truth value of a Index is ambiguous.'')"
    by (simp add: toolkit_released_def)
  have "snd (inspect_data toolkit_released full_readings (Some [''h'']) (Some [''h'']))
      = Some (ValueError ''The truth value of a Index is ambiguous.'')"
    by (simp add: inspect_data_def toolkit_released_def print_basic_info_def
        check_missing_values_def print_summary_stats_def check_duplicate_rows_def
        check_outliers_def zscore_table_def Let_def)
  then show ?thesis
    using inspect_data_Index_raises [OF i, of "Some [''h'']" "Some [''h'']"] by simp
qed

end
